theory Spec2Isabelle
  imports Main
begin

section \<open>Python strings\<close>

text \<open>
  A Python \<open>str\<close> is modelled as a \<^typ>\<open>string\<close>; a character stands for the code point
  of the same number, so the model covers the code points below 256.  The classes below
  are Python's own, cut to that range: \<open>str.isspace\<close> (used by \<open>strip()\<close> and
  \<open>split()\<close>) and the line boundaries of \<open>str.splitlines\<close>.
\<close>

definition isspace :: "char \<Rightarrow> bool" where
  "isspace c = (c \<in> set [CHR 0x09, CHR 0x0A, CHR 0x0B, CHR 0x0C, CHR 0x0D, CHR 0x1C,
                          CHR 0x1D, CHR 0x1E, CHR 0x1F, CHR 0x20, CHR 0x85, CHR 0xA0])"

definition is_linebreak :: "char \<Rightarrow> bool" where
  "is_linebreak c = (c \<in> set [CHR 0x0A, CHR 0x0B, CHR 0x0C, CHR 0x0D, CHR 0x1C,
                               CHR 0x1D, CHR 0x1E, CHR 0x85])"

text \<open>\<open>s.strip(chars)\<close>: drop the longest prefix and the longest suffix made of \<open>chars\<close>.\<close>

definition strip_chars :: "(char \<Rightarrow> bool) \<Rightarrow> string \<Rightarrow> string" where
  "strip_chars P s = rev (dropWhile P (rev (dropWhile P s)))"

definition strip :: "string \<Rightarrow> string" where
  "strip s = strip_chars isspace s"

text \<open>\<open>s.splitlines()\<close>: the line ends are not kept, \<open>\r\n\<close> is one boundary, and a
  text that ends with a boundary has no empty last line.\<close>

fun splitlines_from :: "string \<Rightarrow> string \<Rightarrow> string list" where
  "splitlines_from cur [] = (if cur = [] then [] else [rev cur])"
| "splitlines_from cur (c # cs) =
     (if c = CHR 0x0D then
        (case cs of
           [] \<Rightarrow> rev cur # splitlines_from [] cs
         | d # ds \<Rightarrow> if d = CHR 0x0A then rev cur # splitlines_from [] ds
                     else rev cur # splitlines_from [] cs)
      else if is_linebreak c then rev cur # splitlines_from [] cs
      else splitlines_from (c # cur) cs)"

definition splitlines :: "string \<Rightarrow> string list" where
  "splitlines s = splitlines_from [] s"

text \<open>\<open>s.split()\<close> with no separator: the maximal runs of non-whitespace characters.\<close>

fun split_from :: "string \<Rightarrow> string \<Rightarrow> string list" where
  "split_from cur [] = (if cur = [] then [] else [rev cur])"
| "split_from cur (c # cs) =
     (if isspace c then (if cur = [] then split_from [] cs else rev cur # split_from [] cs)
      else split_from (c # cur) cs)"

definition split :: "string \<Rightarrow> string list" where
  "split s = split_from [] s"

text \<open>\<open>s.replace(a, b)\<close> for one-character \<open>a\<close> and \<open>b\<close>.\<close>

definition replace :: "char \<Rightarrow> char \<Rightarrow> string \<Rightarrow> string" where
  "replace a b s = map (\<lambda>c. if c = a then b else c) s"

text \<open>\<open>sep.join(xs)\<close>.\<close>

fun join :: "string \<Rightarrow> string list \<Rightarrow> string" where
  "join sep [] = []"
| "join sep [x] = x"
| "join sep (x # y # ys) = x @ sep @ join sep (y # ys)"

text \<open>\<open>str(n)\<close> of a non-negative and of any integer.\<close>

fun str_nat :: "nat \<Rightarrow> string" where
  "str_nat n = (if n < 10 then [''0123456789'' ! n]
                else str_nat (n div 10) @ [''0123456789'' ! (n mod 10)])"

declare str_nat.simps [simp del]


section \<open>Exceptions, paths and the file system\<close>

text \<open>An exception is its class name and its message (\<open>str(exc)\<close>).\<close>

datatype exn = Exn (exn_class: string) (exn_message: string)

text \<open>
  A \<open>pathlib.Path\<close> is modelled by its text (\<open>str(path)\<close>).  What \<open>pathlib\<close> and the
  operating system decide (the flavour of the paths, the working directory, the links and
  the files on disk) is a parameter of the model: every theorem holds for every
  \<open>filesystem\<close>.  \<open>resolve\<close>, \<open>read_text\<close> and \<open>write_text\<close> may raise.
\<close>

type_synonym path = string

record filesystem =
  Path :: "string \<Rightarrow> path"
  is_absolute :: "path \<Rightarrow> bool"
  joinpath :: "path \<Rightarrow> path \<Rightarrow> path"
  parent :: "path \<Rightarrow> path"
  name :: "path \<Rightarrow> string"
  resolve :: "path \<Rightarrow> exn + path"
  read_text :: "path \<Rightarrow> exn + string"
  write_text :: "path \<Rightarrow> string \<Rightarrow> exn option"
  exists :: "path \<Rightarrow> bool"
  is_file :: "path \<Rightarrow> bool"

section \<open>Helpers\<close>

subsection \<open>\<open>read_address_entries\<close>\<close>

text \<open>The value of \<open>stripped\<close> in the loop body:
  \<open>line.strip().strip('"').strip("'")\<close>.\<close>

definition stripped :: "string \<Rightarrow> string" where
  "stripped line =
     strip_chars (\<lambda>c. c = CHR 0x27) (strip_chars (\<lambda>c. c = CHR 0x22) (strip line))"

text \<open>The path the loop body hands to \<open>resolve\<close>.\<close>

definition entry_path :: "filesystem \<Rightarrow> path \<Rightarrow> string \<Rightarrow> path" where
  "entry_path fs address_file s =
     (let p = Path fs s
      in if \<not> is_absolute fs p then joinpath fs (parent fs address_file) p else p)"

fun entries_loop :: "filesystem \<Rightarrow> path \<Rightarrow> string list \<Rightarrow> path list \<Rightarrow> exn + path list" where
  "entries_loop fs address_file [] entries = Inr entries"
| "entries_loop fs address_file (line # cleaned) entries =
     (if stripped line = [] then entries_loop fs address_file cleaned entries
      else (case resolve fs (entry_path fs address_file (stripped line)) of
              Inl e \<Rightarrow> Inl e
            | Inr p \<Rightarrow> entries_loop fs address_file cleaned (entries @ [p])))"

definition read_address_entries :: "filesystem \<Rightarrow> path \<Rightarrow> exn + path list" where
  "read_address_entries fs address_file =
     (case read_text fs address_file of
        Inl e \<Rightarrow> Inl e
      | Inr text \<Rightarrow> entries_loop fs address_file (splitlines text) [])"

subsection \<open>The collaborators and the trace of effects\<close>

text \<open>
  The solver-output parser, the analysis-directory helper and the plot generator
  (\<open>FastSolver.PlotGeneration\<close>, imported as \<open>PG\<close>), Python's \<open>float\<close> and
  \<open>json.dumps\<close> and pandas' \<open>to_csv\<close> are not part of this program: they are
  parameters.  Of a loaded matrix the program reads only \<open>shape\<close>, so
  \<open>load_capacitance_matrix\<close> gives the shape tuple; of the dictionary of
  \<open>ensure_analysis_dirs\<close> it reads only the entry \<open>"ports_config"\<close>.
  \<open>process_spiral path records ports\<close> gives the new content of the list \<open>records\<close>,
  which the plot generator extends in place.  \<open>'f\<close> is the type of floats and \<open>'r\<close>
  the type of plot records.
\<close>

record 'f port =
  ptype :: string
  signs :: "'f list"

type_synonym 'f port_map = "(string \<times> 'f port) list"

record ('f, 'r) collaborators =
  load_capacitance_matrix :: "path \<Rightarrow> exn + nat list"
  ensure_analysis_dirs :: "path \<Rightarrow> exn + path"
  process_spiral :: "path \<Rightarrow> 'r list \<Rightarrow> 'f port_map \<Rightarrow> exn + 'r list"
  float :: "string \<Rightarrow> exn + 'f"
  json_dumps :: "'f port_map \<Rightarrow> string"
  to_csv :: "path \<Rightarrow> 'r list \<Rightarrow> exn option"

text \<open>
  What the program does to the outside is recorded, in order, in a trace: the text it
  inserts into the log widget, the dialogs it shows, and its calls of external tools and
  of collaborators that act on the disk.  A call is recorded when it is made, whatever
  its outcome.  \<open>LogCommandFailed cmd rc\<close> is the insertion of
  \<open>f"Command failed: {exc}\n"\<close> for the \<open>CalledProcessError\<close> of \<open>cmd\<close> with return
  code \<open>rc\<close>.
\<close>

datatype 'r event =
    LogInsert string
  | LogCommandFailed "string list" int
  | ShowError string string
  | ShowWarning string string
  | ShowInfo string string
  | RunProcess "string list"
  | OpenPortsPopup
  | RefreshSummary
  | EnsureAnalysisDirs path
  | WriteText path string
  | ProcessSpiral path
  | ToCsv path "'r list"
  | Destroy


subsection \<open>\<open>log_subprocess\<close>\<close>


section \<open>The port configuration popup\<close>

text \<open>
  The fields of \<open>PortsPopup\<close> that the methods below read or write.  \<open>ports\<close> is a
  Python dictionary of dictionaries: association lists in insertion order.  The three
  \<open>var_\<close> fields are the contents of the form (\<open>tk.StringVar\<close>).  \<open>events\<close> is the
  trace; the log widget is the one of the main window.
\<close>

record ('f, 'r) popup =
  address_file :: path
  spiral_paths :: "path list"
  ports :: "(path \<times> 'f port_map) list"
  var_port_name :: string
  var_type :: string
  var_signs :: string
  events :: "'r event list"

text \<open>\<open>d[k] = v\<close> on a dictionary: an existing key keeps its place, a new key goes
  last.\<close>

fun setitem :: "('k \<times> 'v) list \<Rightarrow> 'k \<Rightarrow> 'v \<Rightarrow> ('k \<times> 'v) list" where
  "setitem [] k v = [(k, v)]"
| "setitem ((k', v') # d) k v = (if k' = k then (k', v) # d else (k', v') # setitem d k v)"

text \<open>\<open>d.get(k, {})\<close>.\<close>

definition get_or_empty :: "('k \<times> ('a \<times> 'b) list) list \<Rightarrow> 'k \<Rightarrow> ('a \<times> 'b) list" where
  "get_or_empty d k = (case map_of d k of None \<Rightarrow> [] | Some m \<Rightarrow> m)"

subsection \<open>\<open>_load_spiral_paths\<close>, \<open>_count_conductors\<close> and the rows of the view\<close>

definition capacitance_matrix_path :: "filesystem \<Rightarrow> path \<Rightarrow> path" where
  "capacitance_matrix_path fs p = joinpath fs (joinpath fs p ''FastSolver'') ''CapacitanceMatrix.txt''"

definition load_spiral_paths :: "filesystem \<Rightarrow> path \<Rightarrow> path list \<times> 'r event list" where
  "load_spiral_paths fs file =
     (case read_address_entries fs file of
        Inl exc \<Rightarrow> ([], [ShowError ''Address read error'' (exn_message exc)])
      | Inr paths \<Rightarrow>
          (let existing = filter (\<lambda>p. exists fs (capacitance_matrix_path fs p)) paths
           in (existing,
               if existing = []
               then [ShowWarning ''No solved spirals'' ''No FastSolver outputs found yet.'']
               else [])))"

text \<open>\<open>matrix.shape[0]\<close> raises \<open>IndexError\<close> on an empty shape tuple; \<open>except Exception\<close>
  turns that, and every exception of the loader, into 0.\<close>

definition count_conductors :: "filesystem \<Rightarrow> ('f, 'r) collaborators \<Rightarrow> path \<Rightarrow> nat" where
  "count_conductors fs pg p =
     (let cap = capacitance_matrix_path fs p
      in case load_capacitance_matrix pg cap of
           Inl e \<Rightarrow> 0
         | Inr shape \<Rightarrow> (case shape of [] \<Rightarrow> 0 | n # _ \<Rightarrow> n))"

text \<open>
  The loop of \<open>_build_ui\<close> that fills the tree view, one row per element of
  \<open>spiral_paths\<close>: the item id \<open>str(path)\<close>, the folder name and the conductor count.
  \<open>Treeview.insert\<close> raises \<open>TclError\<close> for an item id that is already in the tree.
\<close>

fun fill_tree ::
  "filesystem \<Rightarrow> ('f, 'r) collaborators \<Rightarrow> (string \<times> string \<times> nat) list \<Rightarrow> path list
     \<Rightarrow> exn + (string \<times> string \<times> nat) list" where
  "fill_tree fs pg tree [] = Inr tree"
| "fill_tree fs pg tree (p # ps) =
     (let n = count_conductors fs pg p
      in if p \<in> fst ` set tree then Inl (Exn ''TclError'' (''Item '' @ p @ '' already exists''))
         else fill_tree fs pg (tree @ [(p, name fs p, n)]) ps)"

text \<open>The rows of the view of a popup opened on the manifest \<open>file\<close>: \<open>__init__\<close> stores the
  result of \<open>_load_spiral_paths\<close> in \<open>spiral_paths\<close>, and \<open>_build_ui\<close> fills the tree
  from it.\<close>

definition view_rows ::
  "filesystem \<Rightarrow> ('f, 'r) collaborators \<Rightarrow> path \<Rightarrow> exn + (string \<times> string \<times> nat) list" where
  "view_rows fs pg file =
     fill_tree fs pg [] (fst (load_spiral_paths fs file :: path list \<times> 'r event list))"

subsection \<open>\<open>_apply_to_paths\<close>\<close>

text \<open>The tokens of the signs field:
  \<open>[s for s in self.var_signs.get().replace(",", " ").split() if s]\<close>.\<close>

definition signs_raw_of :: "string \<Rightarrow> string list" where
  "signs_raw_of s = filter (\<lambda>t. t \<noteq> []) (split (replace (CHR '','') (CHR '' '') s))"

text \<open>The test of the first loop: \<open>n and len(signs_raw) != n\<close>.\<close>

definition size_mismatch ::
  "filesystem \<Rightarrow> ('f, 'r) collaborators \<Rightarrow> string list \<Rightarrow> path \<Rightarrow> bool" where
  "size_mismatch fs pg signs_raw p =
     (let n = count_conductors fs pg p in n \<noteq> 0 \<and> length signs_raw \<noteq> n)"

text \<open>The first loop: the path at which it shows the warning and returns, if any.\<close>

fun check_sizes ::
  "filesystem \<Rightarrow> ('f, 'r) collaborators \<Rightarrow> string list \<Rightarrow> path list \<Rightarrow> path option" where
  "check_sizes fs pg signs_raw [] = None"
| "check_sizes fs pg signs_raw (p # ps) =
     (if size_mismatch fs pg signs_raw p then Some p else check_sizes fs pg signs_raw ps)"

text \<open>\<open>[float(s) for s in signs_raw]\<close>: the first token that does not convert raises.\<close>

fun floats :: "(string \<Rightarrow> exn + 'f) \<Rightarrow> string list \<Rightarrow> exn + 'f list" where
  "floats conv [] = Inr []"
| "floats conv (s # ss) =
     (case conv s of
        Inl e \<Rightarrow> Inl e
      | Inr x \<Rightarrow> (case floats conv ss of Inl e \<Rightarrow> Inl e | Inr xs \<Rightarrow> Inr (x # xs)))"

text \<open>\<open>self.ports.setdefault(path, {})[name] = value\<close>.\<close>

definition set_port ::
  "(path \<times> 'f port_map) list \<Rightarrow> path \<Rightarrow> string \<Rightarrow> 'f port \<Rightarrow> (path \<times> 'f port_map) list" where
  "set_port prts p pname value = setitem prts p (setitem (get_or_empty prts p) pname value)"

text \<open>
  The second loop.  Python evaluates the right-hand side of an assignment before the
  target, so in each round the list of floats is built first, and \<open>setdefault\<close> and the
  store happen only when every token has converted.  The result is the exception that
  ended the loop, if any, and the dictionary as the loop left it.
\<close>

fun commit_loop ::
  "('f, 'r) collaborators \<Rightarrow> string \<Rightarrow> string \<Rightarrow> string list \<Rightarrow> (path \<times> 'f port_map) list
     \<Rightarrow> path list \<Rightarrow> exn option \<times> (path \<times> 'f port_map) list" where
  "commit_loop pg pname ty signs_raw prts [] = (None, prts)"
| "commit_loop pg pname ty signs_raw prts (p # ps) =
     (case floats (float pg) signs_raw of
        Inl e \<Rightarrow> (Some e, prts)
      | Inr xs \<Rightarrow>
          commit_loop pg pname ty signs_raw (set_port prts p pname \<lparr>ptype = ty, signs = xs\<rparr>) ps)"

text \<open>The result is the exception that left the method, if any, and the popup after
  it.\<close>

definition apply_to_paths ::
  "filesystem \<Rightarrow> ('f, 'r) collaborators \<Rightarrow> ('f, 'r) popup \<Rightarrow> path list
     \<Rightarrow> exn option \<times> ('f, 'r) popup" where
  "apply_to_paths fs pg st paths =
     (let pname = strip (var_port_name st)
      in if pname = [] then
           (None, st\<lparr>events := events st @
                     [ShowWarning ''Missing name'' ''Please enter a port name.'']\<rparr>)
         else
           (let signs_raw = signs_raw_of (var_signs st)
            in case check_sizes fs pg signs_raw paths of
                 Some p \<Rightarrow>
                   (None, st\<lparr>events := events st @
                       [ShowWarning ''Size mismatch''
                          (name fs p @ '': expected '' @ str_nat (count_conductors fs pg p)
                             @ '' entries, got '' @ str_nat (length signs_raw))]\<rparr>)
               | None \<Rightarrow>
                   (case commit_loop pg pname (var_type st) signs_raw (ports st) paths of
                      (Some e, prts) \<Rightarrow> (Some e, st\<lparr>ports := prts\<rparr>)
                    | (None, prts) \<Rightarrow>
                        (None, st\<lparr>ports := prts, events := events st @ [RefreshSummary]\<rparr>))))"

subsection \<open>\<open>_save_and_run\<close> and \<open>_run_plots\<close>\<close>

text \<open>The loop over \<open>self.ports.items()\<close>; \<open>json_dumps pg ports\<close> is the text of
  \<open>json.dumps({"ports": ports}, indent=2)\<close>.\<close>

fun save_loop ::
  "filesystem \<Rightarrow> ('f, 'r) collaborators \<Rightarrow> (path \<times> 'f port_map) list \<Rightarrow> 'r event list
     \<Rightarrow> exn option \<times> 'r event list" where
  "save_loop fs pg [] ev = (None, ev)"
| "save_loop fs pg ((p, pm) # rest) ev =
     (case ensure_analysis_dirs pg p of
        Inl e \<Rightarrow> (Some e, ev @ [EnsureAnalysisDirs p])
      | Inr cfg_path \<Rightarrow>
          (case write_text fs cfg_path (json_dumps pg pm) of
             Some e \<Rightarrow> (Some e, ev @ [EnsureAnalysisDirs p, WriteText cfg_path (json_dumps pg pm)])
           | None \<Rightarrow>
               save_loop fs pg rest
                 (ev @ [EnsureAnalysisDirs p, WriteText cfg_path (json_dumps pg pm)])))"

text \<open>The loop over \<open>self.spiral_paths\<close>, with the list \<open>records\<close> it fills.\<close>

fun plot_loop ::
  "('f, 'r) collaborators \<Rightarrow> (path \<times> 'f port_map) list \<Rightarrow> path list \<Rightarrow> 'r list \<Rightarrow> 'r event list
     \<Rightarrow> (exn + 'r list) \<times> 'r event list" where
  "plot_loop pg prts [] records ev = (Inr records, ev)"
| "plot_loop pg prts (p # ps) records ev =
     (case process_spiral pg p records (get_or_empty prts p) of
        Inl e \<Rightarrow> (Inl e, ev @ [ProcessSpiral p])
      | Inr records' \<Rightarrow> plot_loop pg prts ps records' (ev @ [ProcessSpiral p]))"

text \<open>\<open>to_csv\<close> stands for the import of pandas and the call of
  \<open>DataFrame(records).to_csv\<close>.  The arrow that the source writes into the log line
  is a code point above 255; the trace holds \<open>->\<close> in its place.\<close>

definition run_plots ::
  "filesystem \<Rightarrow> ('f, 'r) collaborators \<Rightarrow> ('f, 'r) popup \<Rightarrow> exn option \<times> ('f, 'r) popup" where
  "run_plots fs pg st =
     (case plot_loop pg (ports st) (spiral_paths st) [] (events st) of
        (Inl e, ev) \<Rightarrow> (Some e, st\<lparr>events := ev\<rparr>)
      | (Inr records, ev) \<Rightarrow>
          (let summary_path = joinpath fs (parent fs (address_file st)) ''ports_summary.csv''
           in if records \<noteq> [] then
                (case to_csv pg summary_path records of
                   Some e \<Rightarrow> (Some e, st\<lparr>events := ev @ [ToCsv summary_path records]\<rparr>)
                 | None \<Rightarrow>
                     (None, st\<lparr>events := ev @ [ToCsv summary_path records,
                        LogInsert (''Plot generation complete. Summary -> '' @ summary_path
                                     @ [CHR 0x0A])]\<rparr>))
              else
                (None, st\<lparr>events := ev @
                   [LogInsert (''Plot generation finished (no records written).'' @ [CHR 0x0A])]\<rparr>)))"

definition save_and_run ::
  "filesystem \<Rightarrow> ('f, 'r) collaborators \<Rightarrow> ('f, 'r) popup \<Rightarrow> exn option \<times> ('f, 'r) popup" where
  "save_and_run fs pg st =
     (if ports st = [] then
        (None, st\<lparr>events := events st @
           [ShowWarning ''No ports'' ''Define at least one port before generating plots.'']\<rparr>)
      else
        (case save_loop fs pg (ports st) (events st) of
           (Some e, ev) \<Rightarrow> (Some e, st\<lparr>events := ev\<rparr>)
         | (None, ev) \<Rightarrow>
             (case run_plots fs pg
                     (st\<lparr>events := ev @
                        [LogInsert (''Saved ports_config.json for all selected spirals.''
                                      @ [CHR 0x0A])]\<rparr>) of
                (Some e, st') \<Rightarrow> (Some e, st')
              | (None, st') \<Rightarrow> (None, st'\<lparr>events := events st' @ [Destroy]\<rparr>))))"

section \<open>The main window\<close>

text \<open>The two form fields of \<open>MainApp\<close> and the trace.  The interpreter and the two
  scripts of the installation (\<open>sys.executable\<close>, \<open>str(FAST_UI)\<close>, \<open>str(AUTOMATE)\<close>)
  are parameters.\<close>

record 'r main_app =
  var_address :: string
  var_eps :: string
  app_events :: "'r event list"


subsection \<open>\<open>_verify_address\<close>\<close>

text \<open>The list \<open>missing\<close>: \<open>[p for p in entries if not p.exists()]\<close>.\<close>

definition missing_entries :: "filesystem \<Rightarrow> path list \<Rightarrow> path list" where
  "missing_entries fs entries = filter (\<lambda>p. \<not> exists fs p) entries"

definition verify_address :: "filesystem \<Rightarrow> 'r main_app \<Rightarrow> bool \<times> 'r main_app" where
  "verify_address fs app =
     (let p = Path fs (var_address app)
      in if \<not> is_file fs p then
           (False, app\<lparr>app_events := app_events app @
              [ShowError ''Address missing'' ''Select a valid Address.txt first.'']\<rparr>)
         else
           (case read_address_entries fs p of
              Inl exc \<Rightarrow>
                (False, app\<lparr>app_events := app_events app @
                   [ShowError ''Invalid Address.txt'' (exn_message exc)]\<rparr>)
            | Inr entries \<Rightarrow>
                (let missing = missing_entries fs entries
                 in if missing \<noteq> [] then
                      (False, app\<lparr>app_events := app_events app @
                         [ShowWarning ''Missing folders'' (join [CHR 0x0A] missing)]\<rparr>)
                    else
                      (True, app\<lparr>app_events := app_events app @
                         [ShowInfo ''Address check''
                            (str_nat (length entries) @ '' folders found.'')]\<rparr>))))"

subsection \<open>\<open>_open_ports_popup\<close> and \<open>_run_pipeline\<close>\<close>





section \<open>Reading the trace\<close>

text \<open>
  One round of the saving loop, read off \<open>save_loop\<close>: the events it adds to the trace
  (the call of \<open>ensure_analysis_dirs\<close> and, when that returns, the call of
  \<open>write_text\<close>), and whether it ends without an exception.
\<close>

definition save_events :: "('f, 'r) collaborators \<Rightarrow> path \<times> 'f port_map \<Rightarrow> 'r event list" where
  "save_events pg entry =
     (case ensure_analysis_dirs pg (fst entry) of
        Inl e \<Rightarrow> [EnsureAnalysisDirs (fst entry)]
      | Inr cfg_path \<Rightarrow>
          [EnsureAnalysisDirs (fst entry), WriteText cfg_path (json_dumps pg (snd entry))])"

definition saved_ok :: "filesystem \<Rightarrow> ('f, 'r) collaborators \<Rightarrow> path \<times> 'f port_map \<Rightarrow> bool" where
  "saved_ok fs pg entry =
     (case ensure_analysis_dirs pg (fst entry) of
        Inl e \<Rightarrow> False
      | Inr cfg_path \<Rightarrow> write_text fs cfg_path (json_dumps pg (snd entry)) = None)"




section \<open>A concrete environment\<close>

text \<open>
  A small POSIX-like file system and a set of collaborators, used to evaluate the
  program on concrete inputs.  The manifest is \<open>/work/Address.txt\<close> with the given
  text; \<open>present\<close> are the paths that exist and \<open>readonly\<close> the paths whose writing
  fails.  The matrix loader knows the shapes listed in \<open>shapes\<close>, the plot generator
  fails on the variants in \<open>failing\<close> and gives one record (the variant's path)
  otherwise, and the float conversion knows the tokens \<open>+1\<close>, \<open>1\<close> and \<open>-1\<close>.
\<close>

definition example_fs :: "string \<Rightarrow> path list \<Rightarrow> path list \<Rightarrow> filesystem" where
  "example_fs text present readonly =
     \<lparr>Path = (\<lambda>s. s),
      is_absolute = (\<lambda>p. take 1 p = ''/''),
      joinpath = (\<lambda>p q. if take 1 q = ''/'' then q else p @ ''/'' @ q),
      parent = (\<lambda>p. rev (drop 1 (dropWhile (\<lambda>c. c \<noteq> CHR ''/'') (rev p)))),
      name = (\<lambda>p. rev (takeWhile (\<lambda>c. c \<noteq> CHR ''/'') (rev p))),
      resolve = Inr,
      read_text = (\<lambda>p. if p = ''/work/Address.txt'' then Inr text
                        else Inl (Exn ''FileNotFoundError'' p)),
      write_text = (\<lambda>p s. if p \<in> set readonly then Some (Exn ''PermissionError'' p) else None),
      exists = (\<lambda>p. p \<in> set present),
      is_file = (\<lambda>p. p = ''/work/Address.txt'')\<rparr>"

definition example_pg :: "(path \<times> nat list) list \<Rightarrow> path list \<Rightarrow> (int, string) collaborators" where
  "example_pg shapes failing =
     \<lparr>load_capacitance_matrix =
        (\<lambda>p. case map_of shapes p of
               None \<Rightarrow> Inl (Exn ''FileNotFoundError'' p)
             | Some sh \<Rightarrow> Inr sh),
      ensure_analysis_dirs = (\<lambda>p. Inr (p @ ''/ports_config.json'')),
      process_spiral =
        (\<lambda>p records prts. if p \<in> set failing then Inl (Exn ''PlotError'' p)
                           else Inr (records @ [p])),
      float = (\<lambda>s. case map_of [(''+1'', 1), (''1'', 1), (''-1'', - 1)] s of
                     None \<Rightarrow> Inl (Exn ''ValueError'' s)
                   | Some x \<Rightarrow> Inr x),
      json_dumps = (\<lambda>pm. join '','' (map fst pm)),
      to_csv = (\<lambda>p records. None)\<rparr>"

text \<open>Two manifests: one with a relative and an absolute entry, and one whose lines are
  a quoted blank and a name inside two layers of double quotes.\<close>

definition two_line_manifest :: string where
  "two_line_manifest = ''v1'' @ [CHR 0x0A] @ ''/geo/v2'' @ [CHR 0x0A]"

definition quoted_manifest :: string where
  "quoted_manifest = [CHR 0x22, CHR 0x20, CHR 0x22, CHR 0x0A,
                      CHR 0x22, CHR 0x22, CHR ''v'', CHR ''1'', CHR 0x22, CHR 0x22, CHR 0x0A]"

text \<open>A popup on two variants with no port yet, the name field \<open>Port1\<close>, the type
  \<open>series\<close> and the given signs field; and the shapes of the two variants' matrices.\<close>

definition example_popup :: "string \<Rightarrow> (int, string) popup" where
  "example_popup s =
     \<lparr>address_file = ''/work/Address.txt'', spiral_paths = [''/work/v1'', ''/work/v2''],
      ports = [], var_port_name = ''Port1'', var_type = ''series'', var_signs = s, events = []\<rparr>"

definition example_shapes :: "nat \<Rightarrow> nat \<Rightarrow> (path \<times> nat list) list" where
  "example_shapes m n =
     [(''/work/v1/FastSolver/CapacitanceMatrix.txt'', [m, m]),
      (''/work/v2/FastSolver/CapacitanceMatrix.txt'', [n, n])]"

text \<open>A popup on three variants with their port mappings.\<close>

definition example_ports :: "(path \<times> int port_map) list" where
  "example_ports =
     [(''/work/v1'', [(''Port1'', \<lparr>ptype = ''series'', signs = [1, - 1]\<rparr>)]),
      (''/work/v2'', [(''Port1'', \<lparr>ptype = ''series'', signs = [1, 1]\<rparr>)]),
      (''/work/v3'', [(''Port2'', \<lparr>ptype = ''parallel'', signs = [1]\<rparr>)])]"

definition example_plot_popup :: "(int, string) popup" where
  "example_plot_popup =
     \<lparr>address_file = ''/work/Address.txt'',
      spiral_paths = [''/work/v1'', ''/work/v2'', ''/work/v3''],
      ports = example_ports, var_port_name = ''Port1'', var_type = ''series'',
      var_signs = ''+1 -1'', events = []\<rparr>"




section \<open>The manifest as the specification words it\<close>

text \<open>
  The specification's reading of a manifest line, written from its words and used only
  to compare it with \<open>stripped\<close>: the line is stripped of leading and trailing
  whitespace and of a single layer of surrounding single or double quote characters, and
  a line counts when what is left is neither empty nor whitespace only.
\<close>

definition spec_unquote :: "string \<Rightarrow> string" where
  "spec_unquote s =
     (if 2 \<le> length s \<and> hd s = last s \<and> (hd s = CHR 0x22 \<or> hd s = CHR 0x27)
      then butlast (tl s) else s)"

definition spec_clean :: "string \<Rightarrow> string" where
  "spec_clean line = spec_unquote (strip line)"

definition spec_line_count :: "string \<Rightarrow> nat" where
  "spec_line_count text =
     length (filter (\<lambda>l. \<not> list_all isspace (spec_clean l)) (splitlines text))"

section \<open>Evaluating the concrete environment\<close>

lemma example_fs_sel:
  "Path (example_fs t pr ro) s = s"
  "is_absolute (example_fs t pr ro) p = (take 1 p = ''/'')"
  "joinpath (example_fs t pr ro) p q = (if take 1 q = ''/'' then q else p @ ''/'' @ q)"
  "parent (example_fs t pr ro) p = rev (drop 1 (dropWhile (\<lambda>c. c \<noteq> CHR ''/'') (rev p)))"
  "name (example_fs t pr ro) p = rev (takeWhile (\<lambda>c. c \<noteq> CHR ''/'') (rev p))"
  "resolve (example_fs t pr ro) p = Inr p"
  "read_text (example_fs t pr ro) p =
     (if p = ''/work/Address.txt'' then Inr t else Inl (Exn ''FileNotFoundError'' p))"
  "write_text (example_fs t pr ro) p s =
     (if p \<in> set ro then Some (Exn ''PermissionError'' p) else None)"
  "exists (example_fs t pr ro) p = (p \<in> set pr)"
  "is_file (example_fs t pr ro) p = (p = ''/work/Address.txt'')"
  by (simp_all add: example_fs_def)

lemma example_pg_sel:
  "load_capacitance_matrix (example_pg sh fl) p =
     (case map_of sh p of None \<Rightarrow> Inl (Exn ''FileNotFoundError'' p) | Some x \<Rightarrow> Inr x)"
  "ensure_analysis_dirs (example_pg sh fl) p = Inr (p @ ''/ports_config.json'')"
  "process_spiral (example_pg sh fl) p records prts =
     (if p \<in> set fl then Inl (Exn ''PlotError'' p) else Inr (records @ [p]))"
  "float (example_pg sh fl) s =
     (case map_of [(''+1'', 1), (''1'', 1), (''-1'', - 1)] s of
        None \<Rightarrow> Inl (Exn ''ValueError'' s) | Some x \<Rightarrow> Inr x)"
  "json_dumps (example_pg sh fl) pm = join '','' (map fst pm)"
  "to_csv (example_pg sh fl) p records = None"
  by (simp_all add: example_pg_def)

lemma splitlines_quoted_manifest:
  "splitlines quoted_manifest = [[CHR 0x22, CHR 0x20, CHR 0x22], [CHR 0x22, CHR 0x22, CHR ''v'', CHR ''1'', CHR 0x22, CHR 0x22]]"
  by (simp add: splitlines_def quoted_manifest_def is_linebreak_def)

lemma splitlines_two_line_manifest:
  "splitlines two_line_manifest = [''v1'', ''/geo/v2'']"
  by (simp add: splitlines_def two_line_manifest_def is_linebreak_def)

lemma read_two_line_manifest:
  "read_address_entries (example_fs two_line_manifest present ro) ''/work/Address.txt''
     = Inr [''/work/v1'', ''/geo/v2'']"
  by (simp add: read_address_entries_def example_fs_sel splitlines_two_line_manifest stripped_def strip_def
        strip_chars_def isspace_def entry_path_def)

lemma count_conductors_example:
  "count_conductors (example_fs t pr ro) (example_pg (example_shapes m n) fl) ''/work/v1'' = m"
  "count_conductors (example_fs t pr ro) (example_pg (example_shapes m n) fl) ''/work/v2'' = n"
  by (simp_all add: count_conductors_def capacitance_matrix_path_def example_fs_sel
        example_pg_sel example_shapes_def)

lemma signs_raw_of_examples:
  "signs_raw_of ''+1'' = [''+1'']"
  "signs_raw_of ''+1 -1'' = [''+1'', ''-1'']"
  "signs_raw_of ''+1, -1'' = [''+1'', ''-1'']"
  "signs_raw_of ''+1 x'' = [''+1'', ''x'']"
  by (simp_all add: signs_raw_of_def split_def replace_def isspace_def)

lemma example_popup_sel:
  "var_signs (example_popup s) = s"
  "var_port_name (example_popup s) = ''Port1''"
  "var_type (example_popup s) = ''series''"
  "ports (example_popup s) = []"
  "events (example_popup s) = []"
  by (simp_all add: example_popup_def)

lemma strip_Port1: "strip ''Port1'' = ''Port1''"
  by (simp add: strip_def strip_chars_def isspace_def)

lemma str_nat_digits:
  "str_nat (Suc 0) = ''1''" "str_nat 1 = ''1''" "str_nat 2 = ''2''" "str_nat 3 = ''3''"
  by (simp_all add: str_nat.simps)

lemma example_plot_popup_sel:
  "address_file example_plot_popup = ''/work/Address.txt''"
  "spiral_paths example_plot_popup = [''/work/v1'', ''/work/v2'', ''/work/v3'']"
  "ports example_plot_popup = example_ports"
  "events example_plot_popup = []"
  by (simp_all add: example_plot_popup_def)



section \<open>The conductor count\<close>

text \<open>
  C7.  The conductor count query has a natural number as its result, so it never
  propagates an error.  It is 0 when the loader of the capacitance matrix raises
  (artifact missing, malformed, parse failure) and when the loaded object has no first
  dimension; otherwise it is the first dimension of the matrix, its row count.  The
  result depends on nothing but the loader's answer for the artifact, so asking again
  with that answer unchanged gives the same count.
\<close>

theorem count_conductors_total:
  "(\<forall>e. load_capacitance_matrix pg (capacitance_matrix_path fs p) = Inl e
        \<longrightarrow> count_conductors fs pg p = 0)
   \<and> (load_capacitance_matrix pg (capacitance_matrix_path fs p) = Inr []
        \<longrightarrow> count_conductors fs pg p = 0)
   \<and> (\<forall>n rest. load_capacitance_matrix pg (capacitance_matrix_path fs p) = Inr (n # rest)
        \<longrightarrow> count_conductors fs pg p = n)
   \<and> (\<forall>pg' :: ('f, 'r) collaborators.
         load_capacitance_matrix pg' (capacitance_matrix_path fs p)
           = load_capacitance_matrix pg (capacitance_matrix_path fs p)
        \<longrightarrow> count_conductors fs pg' p = count_conductors fs pg p)"
  by (simp add: count_conductors_def)

theorem count_conductors_total_witness:
  "count_conductors (example_fs [] [] [])
      (example_pg [(''/work/v1/FastSolver/CapacitanceMatrix.txt'', [3, 3])] []) ''/work/v1'' = 3
   \<and> count_conductors (example_fs [] [] [])
      (example_pg [(''/work/v1/FastSolver/CapacitanceMatrix.txt'', [3, 3])] []) ''/work/v2'' = 0"
proof -
  let ?fs = "example_fs [] [] []"
  let ?pg = "example_pg [(''/work/v1/FastSolver/CapacitanceMatrix.txt'', [3, 3])] []"
  have a: "load_capacitance_matrix ?pg (capacitance_matrix_path ?fs ''/work/v1'') = Inr [3, 3]"
    by (simp add: example_pg_def example_fs_def capacitance_matrix_path_def)
  have b: "load_capacitance_matrix ?pg (capacitance_matrix_path ?fs ''/work/v2'')
             = Inl (Exn ''FileNotFoundError'' ''/work/v2/FastSolver/CapacitanceMatrix.txt'')"
    by (simp add: example_pg_def example_fs_def capacitance_matrix_path_def)
  from count_conductors_total [of ?pg ?fs "''/work/v1''"] a
  have "count_conductors ?fs ?pg ''/work/v1'' = 3" by blast
  moreover from count_conductors_total [of ?pg ?fs "''/work/v2''"] b
  have "count_conductors ?fs ?pg ''/work/v2'' = 0" by blast
  ultimately show ?thesis by simp
qed

section \<open>The manifest\<close>

lemma entries_loop_Inr:
  "entries_loop fs f ls acc = Inr es \<Longrightarrow>
     map Inr es = map Inr acc @ map (\<lambda>l. resolve fs (entry_path fs f (stripped l)))
                                   (filter (\<lambda>l. stripped l \<noteq> []) ls)"
proof (induction ls arbitrary: acc)
  case Nil
  then show ?case by simp
next
  case (Cons l ls)
  show ?case
  proof (cases "stripped l = []")
    case True
    with Cons show ?thesis by simp
  next
    case False
    with Cons.prems obtain p where p: "resolve fs (entry_path fs f (stripped l)) = Inr p"
      and rest: "entries_loop fs f ls (acc @ [p]) = Inr es"
      by (auto split: sum.splits)
    from Cons.IH [OF rest] p False show ?thesis by simp
  qed
qed

lemma entries_loop_total:
  "\<forall>l\<in>set ls. stripped l \<noteq> [] \<longrightarrow> (\<exists>p. resolve fs (entry_path fs f (stripped l)) = Inr p)
     \<Longrightarrow> \<exists>es. entries_loop fs f ls acc = Inr es"
  by (induction ls arbitrary: acc) (auto split: sum.splits)

text \<open>
  C6, as the code has it.  For a manifest that can be read, the entries are, in file
  order, one for each line whose cleaned form \<open>stripped\<close> is not empty: \<open>parse\<close>
  returns exactly as many entries as there are such lines.  The cleaned form is the line
  without its leading and trailing whitespace, then without all its leading and trailing
  double quotes, then without all its leading and trailing single quotes.  The entry is
  the cleaned form as a path, joined to the parent directory of the manifest when it is
  not absolute, and resolved.  The call returns whenever every such path resolves.
\<close>

theorem read_address_entries_cleaned:
  assumes "read_text fs file = Inr text"
  shows "(\<forall>es. read_address_entries fs file = Inr es \<longrightarrow>
            map Inr es = map (\<lambda>l. resolve fs (entry_path fs file (stripped l)))
                           (filter (\<lambda>l. stripped l \<noteq> []) (splitlines text))
            \<and> length es = length (filter (\<lambda>l. stripped l \<noteq> []) (splitlines text)))
       \<and> ((\<forall>l\<in>set (splitlines text). stripped l \<noteq> [] \<longrightarrow>
               (\<exists>p. resolve fs (entry_path fs file (stripped l)) = Inr p))
            \<longrightarrow> (\<exists>es. read_address_entries fs file = Inr es))"
proof (intro conjI allI impI)
  fix es assume r: "read_address_entries fs file = Inr es"
  with assms have "entries_loop fs file (splitlines text) [] = Inr es"
    by (simp add: read_address_entries_def)
  from entries_loop_Inr [OF this]
  show m: "map Inr es = map (\<lambda>l. resolve fs (entry_path fs file (stripped l)))
                           (filter (\<lambda>l. stripped l \<noteq> []) (splitlines text))"
    by simp
  from arg_cong [OF m, of length]
  show "length es = length (filter (\<lambda>l. stripped l \<noteq> []) (splitlines text))"
    by simp
next
  assume "\<forall>l\<in>set (splitlines text). stripped l \<noteq> [] \<longrightarrow>
               (\<exists>p. resolve fs (entry_path fs file (stripped l)) = Inr p)"
  from entries_loop_total [OF this] assms
  show "\<exists>es. read_address_entries fs file = Inr es"
    by (simp add: read_address_entries_def)
qed

theorem read_address_entries_cleaned_witness:
  "read_address_entries (example_fs quoted_manifest [] []) ''/work/Address.txt''
     = Inr [''/work/ '', ''/work/v1'']
   \<and> length (filter (\<lambda>l. stripped l \<noteq> []) (splitlines quoted_manifest)) = 2"
proof -
  let ?fs = "example_fs quoted_manifest [] []"
  have rt: "read_text ?fs ''/work/Address.txt'' = Inr quoted_manifest"
    by (simp add: example_fs_sel)
  have res: "\<forall>l\<in>set (splitlines quoted_manifest). stripped l \<noteq> [] \<longrightarrow>
               (\<exists>p. resolve ?fs (entry_path ?fs ''/work/Address.txt'' (stripped l)) = Inr p)"
    by (simp add: example_fs_sel)
  from read_address_entries_cleaned [OF rt] res
  obtain es where es: "read_address_entries ?fs ''/work/Address.txt'' = Inr es" by blast
  with read_address_entries_cleaned [OF rt]
  have m: "map Inr es = map (\<lambda>l. resolve ?fs (entry_path ?fs ''/work/Address.txt'' (stripped l)))
                           (filter (\<lambda>l. stripped l \<noteq> []) (splitlines quoted_manifest))"
    and n: "length es = length (filter (\<lambda>l. stripped l \<noteq> []) (splitlines quoted_manifest))"
    by blast+
  have "map (\<lambda>l. resolve ?fs (entry_path ?fs ''/work/Address.txt'' (stripped l)))
          (filter (\<lambda>l. stripped l \<noteq> []) (splitlines quoted_manifest))
        = [Inr ''/work/ '', Inr ''/work/v1'']"
    by (simp add: example_fs_sel splitlines_quoted_manifest stripped_def strip_def strip_chars_def isspace_def entry_path_def)
  with m have "es = [''/work/ '', ''/work/v1'']" by auto
  with es n show ?thesis by simp
qed

text \<open>
  C6 as stated fails on a manifest of two lines, a blank between double quotes and
  \<open>v1\<close> inside two layers of double quotes.  The specification counts one line (the
  first is whitespace only once its quotes are gone) and cleans the second to \<open>v1\<close>
  with one layer of quotes left; the code returns two entries, and the second has no
  quote left.
\<close>

theorem read_address_entries_counterexample:
  "read_address_entries (example_fs quoted_manifest [] []) ''/work/Address.txt''
     = Inr [''/work/ '', ''/work/v1'']
   \<and> spec_line_count quoted_manifest = 1
   \<and> map spec_clean (splitlines quoted_manifest) = ['' '', [CHR 0x22, CHR ''v'', CHR ''1'', CHR 0x22]]"
  by (simp add: read_address_entries_def example_fs_sel splitlines_quoted_manifest stripped_def strip_def strip_chars_def
        isspace_def entry_path_def spec_line_count_def spec_clean_def spec_unquote_def)

text \<open>
  C8.  With the manifest parsed into \<open>entries\<close>, the list of missing variants is empty
  if and only if every entry exists on disk, and it holds exactly the entries that do not
  exist.  \<open>_verify_address\<close> answers \<open>True\<close> exactly when that list is empty, and
  otherwise shows the warning that lists them.
\<close>

theorem verify_address_missing:
  assumes "is_file fs (Path fs (var_address app))"
    and "read_address_entries fs (Path fs (var_address app)) = Inr entries"
  shows "(missing_entries fs entries = [] \<longleftrightarrow> (\<forall>p\<in>set entries. exists fs p))
       \<and> set (missing_entries fs entries) = {p \<in> set entries. \<not> exists fs p}
       \<and> fst (verify_address fs app) = (missing_entries fs entries = [])
       \<and> (missing_entries fs entries \<noteq> [] \<longrightarrow>
            app_events (snd (verify_address fs app))
              = app_events app @
                  [ShowWarning ''Missing folders'' (join [CHR 0x0A] (missing_entries fs entries))])"
proof -
  have a: "missing_entries fs entries = [] \<longleftrightarrow> (\<forall>p\<in>set entries. exists fs p)"
    by (simp add: missing_entries_def filter_empty_conv)
  have b: "set (missing_entries fs entries) = {p \<in> set entries. \<not> exists fs p}"
    by (simp add: missing_entries_def)
  have c: "fst (verify_address fs app) = (missing_entries fs entries = [])"
    using assms by (simp add: verify_address_def Let_def)
  have d: "missing_entries fs entries \<noteq> [] \<longrightarrow>
            app_events (snd (verify_address fs app))
              = app_events app @
                  [ShowWarning ''Missing folders'' (join [CHR 0x0A] (missing_entries fs entries))]"
    using assms by (simp add: verify_address_def Let_def)
  from a b c d show ?thesis by blast
qed

theorem verify_address_missing_witness:
  "fst (verify_address (example_fs two_line_manifest [''/work/v1''] [])
          \<lparr>var_address = ''/work/Address.txt'', var_eps = ''3.5'',
           app_events = ([] :: string event list)\<rparr>) = False
   \<and> missing_entries (example_fs two_line_manifest [''/work/v1''] [])
        [''/work/v1'', ''/geo/v2''] = [''/geo/v2'']
   \<and> fst (verify_address (example_fs two_line_manifest [''/work/v1'', ''/geo/v2''] [])
          \<lparr>var_address = ''/work/Address.txt'', var_eps = ''3.5'',
           app_events = ([] :: string event list)\<rparr>) = True"
proof -
  let ?app = "\<lparr>var_address = ''/work/Address.txt'', var_eps = ''3.5'',
               app_events = ([] :: string event list)\<rparr>"
  let ?fs1 = "example_fs two_line_manifest [''/work/v1''] []"
  let ?fs2 = "example_fs two_line_manifest [''/work/v1'', ''/geo/v2''] []"
  have f1: "is_file ?fs1 (Path ?fs1 (var_address ?app))" by (simp add: example_fs_sel)
  have e1: "read_address_entries ?fs1 (Path ?fs1 (var_address ?app)) = Inr [''/work/v1'', ''/geo/v2'']"
    using read_two_line_manifest by (simp add: example_fs_sel)
  have f2: "is_file ?fs2 (Path ?fs2 (var_address ?app))" by (simp add: example_fs_sel)
  have e2: "read_address_entries ?fs2 (Path ?fs2 (var_address ?app)) = Inr [''/work/v1'', ''/geo/v2'']"
    using read_two_line_manifest by (simp add: example_fs_sel)
  have m1: "missing_entries ?fs1 [''/work/v1'', ''/geo/v2''] = [''/geo/v2'']"
    by (simp add: missing_entries_def example_fs_sel)
  have m2: "\<forall>p\<in>set [''/work/v1'', ''/geo/v2'']. exists ?fs2 p"
    by (simp add: example_fs_sel)
  from verify_address_missing [OF f1 e1] m1
  have "fst (verify_address ?fs1 ?app) = False" by simp
  moreover from verify_address_missing [OF f2 e2] m2
  have "fst (verify_address ?fs2 ?app) = True" by blast
  ultimately show ?thesis using m1 by simp
qed

section \<open>The view of the popup\<close>

lemma fill_tree_rows:
  "fill_tree fs pg tree ps = Inr rows \<Longrightarrow>
     rows = tree @ map (\<lambda>p. (p, name fs p, count_conductors fs pg p)) ps"
proof (induction ps arbitrary: tree)
  case Nil
  then show ?case by simp
next
  case (Cons p ps)
  from Cons.prems have "fill_tree fs pg (tree @ [(p, name fs p, count_conductors fs pg p)]) ps = Inr rows"
    by (simp add: Let_def split: if_splits)
  from Cons.IH [OF this] show ?case by simp
qed

lemma load_spiral_paths_filter:
  "fst (load_spiral_paths fs file :: path list \<times> 'r event list)
     = (case read_address_entries fs file of
          Inl e \<Rightarrow> []
        | Inr paths \<Rightarrow> filter (\<lambda>p. exists fs (capacitance_matrix_path fs p)) paths)"
  by (simp add: load_spiral_paths_def Let_def split: sum.splits)

text \<open>
  C10.  The rows of the view are the manifest entries whose capacitance-matrix file
  exists, in order: an entry without that file is not listed at all.  Every listed
  variant has an existing artifact file and is shown with its conductor count; a listed
  variant shown with count 0 is one whose file exists but gives no rows: the loader
  raises on it, or what it loads has no first dimension or a first dimension of 0.
\<close>

theorem view_rows_artifact_exists:
  assumes "(view_rows fs pg file :: exn + (string \<times> string \<times> nat) list) = Inr rows"
  shows "(\<forall>entries. read_address_entries fs file = Inr entries \<longrightarrow>
            map fst rows = filter (\<lambda>p. exists fs (capacitance_matrix_path fs p)) entries)
       \<and> (\<forall>(p, folder, n)\<in>set rows.
            exists fs (capacitance_matrix_path fs p)
            \<and> n = count_conductors fs pg p
            \<and> (n = 0 \<longrightarrow>
                 (\<exists>e. load_capacitance_matrix pg (capacitance_matrix_path fs p) = Inl e)
                 \<or> load_capacitance_matrix pg (capacitance_matrix_path fs p) = Inr []
                 \<or> (\<exists>rest. load_capacitance_matrix pg (capacitance_matrix_path fs p)
                              = Inr (0 # rest))))"
proof -
  define sp where "sp = (case read_address_entries fs file of
          Inl e \<Rightarrow> []
        | Inr paths \<Rightarrow> filter (\<lambda>p. exists fs (capacitance_matrix_path fs p)) paths)"
  from assms have "fill_tree fs pg [] sp = Inr rows"
    by (simp add: view_rows_def load_spiral_paths_filter sp_def)
  from fill_tree_rows [OF this]
  have rows: "rows = map (\<lambda>p. (p, name fs p, count_conductors fs pg p)) sp" by simp
  have ex: "\<forall>p\<in>set sp. exists fs (capacitance_matrix_path fs p)"
    by (auto simp: sp_def split: sum.splits)
  have zero: "count_conductors fs pg p = 0 \<longrightarrow>
                 (\<exists>e. load_capacitance_matrix pg (capacitance_matrix_path fs p) = Inl e)
                 \<or> load_capacitance_matrix pg (capacitance_matrix_path fs p) = Inr []
                 \<or> (\<exists>rest. load_capacitance_matrix pg (capacitance_matrix_path fs p)
                              = Inr (0 # rest))" for p
    by (auto simp: count_conductors_def split: sum.splits list.splits)
  have 1: "\<forall>entries. read_address_entries fs file = Inr entries \<longrightarrow>
            map fst rows = filter (\<lambda>p. exists fs (capacitance_matrix_path fs p)) entries"
    by (simp add: rows sp_def comp_def)
  have 2: "\<forall>(p, folder, n)\<in>set rows.
            exists fs (capacitance_matrix_path fs p)
            \<and> n = count_conductors fs pg p
            \<and> (n = 0 \<longrightarrow>
                 (\<exists>e. load_capacitance_matrix pg (capacitance_matrix_path fs p) = Inl e)
                 \<or> load_capacitance_matrix pg (capacitance_matrix_path fs p) = Inr []
                 \<or> (\<exists>rest. load_capacitance_matrix pg (capacitance_matrix_path fs p)
                              = Inr (0 # rest)))"
    using ex zero by (auto simp: rows)
  from 1 2 show ?thesis by blast
qed

theorem view_rows_artifact_exists_witness:
  "view_rows (example_fs two_line_manifest [''/geo/v2/FastSolver/CapacitanceMatrix.txt''] [])
      (example_pg [] []) ''/work/Address.txt'' = Inr [(''/geo/v2'', ''v2'', 0)]
   \<and> exists (example_fs two_line_manifest [''/geo/v2/FastSolver/CapacitanceMatrix.txt''] [])
        (capacitance_matrix_path
           (example_fs two_line_manifest [''/geo/v2/FastSolver/CapacitanceMatrix.txt''] [])
           ''/geo/v2'')"
proof -
  let ?fs = "example_fs two_line_manifest [''/geo/v2/FastSolver/CapacitanceMatrix.txt''] []"
  let ?pg = "example_pg [] []"
  have v: "view_rows ?fs ?pg ''/work/Address.txt'' = Inr [(''/geo/v2'', ''v2'', 0)]"
    by (simp add: view_rows_def load_spiral_paths_def read_two_line_manifest capacitance_matrix_path_def
          count_conductors_def example_fs_sel example_pg_sel)
  from view_rows_artifact_exists [OF v]
  have "exists ?fs (capacitance_matrix_path ?fs ''/geo/v2'')" by simp
  with v show ?thesis by simp
qed

section \<open>Applying a port definition to many variants\<close>

lemma check_sizes_None:
  "check_sizes fs pg sr ps = None \<longleftrightarrow> (\<forall>p\<in>set ps. \<not> size_mismatch fs pg sr p)"
  by (induction ps) auto

lemma check_sizes_first:
  "\<forall>q\<in>set pre. \<not> size_mismatch fs pg sr q \<Longrightarrow> size_mismatch fs pg sr p
     \<Longrightarrow> check_sizes fs pg sr (pre @ p # post) = Some p"
  by (induction pre) auto

lemma commit_loop_raises:
  "floats (float pg) sr = Inl e \<Longrightarrow>
     commit_loop pg pname ty sr prts ps = (if ps = [] then (None, prts) else (Some e, prts))"
  by (cases ps) auto

lemma commit_loop_unchanged_on_raise:
  "fst (commit_loop pg pname ty sr prts ps) = Some e \<Longrightarrow>
     snd (commit_loop pg pname ty sr prts ps) = prts"
proof (cases "floats (float pg) sr")
  case (Inl e')
  then show ?thesis by (simp add: commit_loop_raises)
next
  case (Inr xs)
  have "fst (commit_loop pg pname ty sr prts' ps) = None" for prts'
    using Inr by (induction ps arbitrary: prts') auto
  moreover assume "fst (commit_loop pg pname ty sr prts ps) = Some e"
  ultimately show ?thesis by simp
qed

lemma map_of_setitem: "map_of (setitem d k v) = (map_of d)(k \<mapsto> v)"
  by (induction d k v rule: setitem.induct) auto

lemma port_after_set_port:
  "map_of (get_or_empty (set_port prts q pname v) p) pname
     = (if p = q then Some v else map_of (get_or_empty prts p) pname)"
  by (simp add: set_port_def get_or_empty_def map_of_setitem)

lemma commit_loop_sets:
  assumes "floats (float pg) sr = Inr xs"
  shows "fst (commit_loop pg pname ty sr prts ps) = None
       \<and> (\<forall>p. p \<in> set ps \<or> map_of (get_or_empty prts p) pname = Some \<lparr>ptype = ty, signs = xs\<rparr>
              \<longrightarrow> map_of (get_or_empty (snd (commit_loop pg pname ty sr prts ps)) p) pname
                    = Some \<lparr>ptype = ty, signs = xs\<rparr>)"
  using assms
proof (induction ps arbitrary: prts)
  case Nil
  then show ?case by simp
next
  case (Cons q ps)
  from Cons.IH [OF Cons.prems, of "set_port prts q pname \<lparr>ptype = ty, signs = xs\<rparr>"] Cons.prems
  show ?case by (auto simp: port_after_set_port)
qed

lemma apply_to_paths_mismatch:
  assumes "check_sizes fs pg (signs_raw_of (var_signs st)) paths = Some p"
  shows "fst (apply_to_paths fs pg st paths) = None"
    and "ports (snd (apply_to_paths fs pg st paths)) = ports st"
  using assms by (simp_all add: apply_to_paths_def Let_def)

lemma apply_to_paths_raise_unchanged:
  assumes "fst (apply_to_paths fs pg st paths) = Some e"
  shows "ports (snd (apply_to_paths fs pg st paths)) = ports st"
proof (cases "strip (var_port_name st) = []")
  case True
  then show ?thesis by (simp add: apply_to_paths_def)
next
  case False
  show ?thesis
  proof (cases "check_sizes fs pg (signs_raw_of (var_signs st)) paths")
    case (Some p)
    then show ?thesis by (simp add: apply_to_paths_mismatch)
  next
    case None
    let ?c = "commit_loop pg (strip (var_port_name st)) (var_type st)
                (signs_raw_of (var_signs st)) (ports st) paths"
    from assms False None have "fst ?c = Some e"
      by (auto simp: apply_to_paths_def Let_def split: prod.splits option.splits)
    from commit_loop_unchanged_on_raise [OF this] False None
    show ?thesis
      by (auto simp: apply_to_paths_def Let_def split: prod.splits option.splits)
  qed
qed

text \<open>
  C1.  A batch apply checks the size of the signs vector against every target variant
  before it stores anything.  If some target with a nonzero conductor count has a count
  different from the number of sign tokens, the method returns with every port mapping
  as it was.  So the port mappings change only when every target passes the check; and
  when they all pass (with a port name given and every token a float), every target
  holds the port under that name, with the type and the signs of the form.
\<close>

theorem apply_to_paths_all_or_nothing:
  "((\<exists>p\<in>set paths. size_mismatch fs pg (signs_raw_of (var_signs st)) p) \<longrightarrow>
       fst (apply_to_paths fs pg st paths) = None
       \<and> ports (snd (apply_to_paths fs pg st paths)) = ports st)
   \<and> (ports (snd (apply_to_paths fs pg st paths)) \<noteq> ports st \<longrightarrow>
       (\<forall>p\<in>set paths. \<not> size_mismatch fs pg (signs_raw_of (var_signs st)) p))
   \<and> (\<forall>xs. strip (var_port_name st) \<noteq> []
          \<and> (\<forall>p\<in>set paths. \<not> size_mismatch fs pg (signs_raw_of (var_signs st)) p)
          \<and> floats (float pg) (signs_raw_of (var_signs st)) = Inr xs \<longrightarrow>
        fst (apply_to_paths fs pg st paths) = None
        \<and> (\<forall>p\<in>set paths.
              map_of (get_or_empty (ports (snd (apply_to_paths fs pg st paths))) p)
                     (strip (var_port_name st))
                = Some \<lparr>ptype = var_type st, signs = xs\<rparr>))"
proof -
  let ?sr = "signs_raw_of (var_signs st)"
  have a: "fst (apply_to_paths fs pg st paths) = None
           \<and> ports (snd (apply_to_paths fs pg st paths)) = ports st"
    if "\<exists>p\<in>set paths. size_mismatch fs pg ?sr p"
  proof (cases "strip (var_port_name st) = []")
    case True
    then show ?thesis by (simp add: apply_to_paths_def)
  next
    case False
    from that have "check_sizes fs pg ?sr paths \<noteq> None" by (simp add: check_sizes_None)
    then obtain p where "check_sizes fs pg ?sr paths = Some p" by auto
    then show ?thesis by (simp add: apply_to_paths_mismatch)
  qed
  have c: "fst (apply_to_paths fs pg st paths) = None
        \<and> (\<forall>p\<in>set paths.
              map_of (get_or_empty (ports (snd (apply_to_paths fs pg st paths))) p)
                     (strip (var_port_name st))
                = Some \<lparr>ptype = var_type st, signs = xs\<rparr>)"
    if n: "strip (var_port_name st) \<noteq> []"
      and v: "\<forall>p\<in>set paths. \<not> size_mismatch fs pg ?sr p"
      and f: "floats (float pg) ?sr = Inr xs" for xs
  proof -
    from v have cs: "check_sizes fs pg ?sr paths = None" by (simp add: check_sizes_None)
    from commit_loop_sets [OF f, of "strip (var_port_name st)" "var_type st" "ports st" paths]
    show ?thesis using n cs
      by (auto simp: apply_to_paths_def Let_def split: prod.splits option.splits)
  qed
  from a c show ?thesis by blast
qed

theorem apply_to_paths_all_or_nothing_witness:
  "ports (snd (apply_to_paths (example_fs [] [] []) (example_pg (example_shapes 2 3) [])
                 (example_popup ''+1 -1'') [''/work/v1'', ''/work/v2''])) = []
   \<and> map_of (get_or_empty
        (ports (snd (apply_to_paths (example_fs [] [] []) (example_pg (example_shapes 2 2) [])
                       (example_popup ''+1, -1'') [''/work/v1'', ''/work/v2''])))
        ''/work/v2'') ''Port1''
      = Some \<lparr>ptype = ''series'', signs = [1, - 1]\<rparr>"
proof -
  let ?fs = "example_fs [] [] []"
  let ?paths = "[''/work/v1'', ''/work/v2'']"
  have bad: "\<exists>p\<in>set ?paths. size_mismatch ?fs (example_pg (example_shapes 2 3) [])
                (signs_raw_of (var_signs (example_popup ''+1 -1''))) p"
    by (simp add: size_mismatch_def count_conductors_example example_popup_sel
          signs_raw_of_examples)
  have good: "\<forall>p\<in>set ?paths. \<not> size_mismatch ?fs (example_pg (example_shapes 2 2) [])
                (signs_raw_of (var_signs (example_popup ''+1, -1''))) p"
    by (simp add: size_mismatch_def count_conductors_example example_popup_sel
          signs_raw_of_examples)
  have nm: "strip (var_port_name (example_popup ''+1, -1'')) \<noteq> []"
    by (simp add: example_popup_sel strip_Port1)
  have fl: "floats (float (example_pg (example_shapes 2 2) []))
              (signs_raw_of (var_signs (example_popup ''+1, -1''))) = Inr [1, - 1]"
    by (simp add: example_popup_sel signs_raw_of_examples example_pg_sel)
  note left = apply_to_paths_all_or_nothing
         [of ?paths ?fs "example_pg (example_shapes 2 3) []" "example_popup ''+1 -1''",
          THEN conjunct1, THEN mp, OF bad, THEN conjunct2]
  then have 1: "ports (snd (apply_to_paths ?fs (example_pg (example_shapes 2 3) [])
                 (example_popup ''+1 -1'') ?paths)) = []"
    by (simp only: example_popup_sel)
  note right = apply_to_paths_all_or_nothing
         [of ?paths ?fs "example_pg (example_shapes 2 2) []" "example_popup ''+1, -1''",
          THEN conjunct2, THEN conjunct2, THEN spec, THEN mp,
          OF conjI [OF nm conjI [OF good fl]], THEN conjunct2, THEN bspec,
          of "''/work/v2''"]
  have "''/work/v2'' \<in> set ?paths" by simp
  from right [OF this]
  have 2: "map_of (get_or_empty
        (ports (snd (apply_to_paths ?fs (example_pg (example_shapes 2 2) [])
                       (example_popup ''+1, -1'') ?paths))) ''/work/v2'') ''Port1''
      = Some \<lparr>ptype = ''series'', signs = [1, - 1]\<rparr>"
    by (simp only: example_popup_sel strip_Port1)
  from 1 2 show ?thesis by simp
qed

text \<open>
  C3, as the code has it.  When a batch apply fails the size check, one warning is
  shown, and it names the first failing variant in the order of the batch, with its
  conductor count and the number of sign tokens; the method returns there, so whether
  the later variants fail is neither checked nor reported.
\<close>

theorem apply_to_paths_reports_first_mismatch:
  assumes "strip (var_port_name st) \<noteq> []"
    and "\<forall>q\<in>set pre. \<not> size_mismatch fs pg (signs_raw_of (var_signs st)) q"
    and "size_mismatch fs pg (signs_raw_of (var_signs st)) p"
  shows "apply_to_paths fs pg st (pre @ p # post)
           = (None, st\<lparr>events := events st @
                [ShowWarning ''Size mismatch''
                   (name fs p @ '': expected '' @ str_nat (count_conductors fs pg p)
                      @ '' entries, got ''
                      @ str_nat (length (signs_raw_of (var_signs st))))]\<rparr>)"
  using assms(1) check_sizes_first [OF assms(2,3), of post]
  by (simp add: apply_to_paths_def Let_def)

theorem apply_to_paths_reports_first_mismatch_witness:
  "apply_to_paths (example_fs [] [] []) (example_pg (example_shapes 1 3) [])
      (example_popup ''+1'') [''/work/v1'', ''/work/v2'']
     = (None, (example_popup ''+1'')
          \<lparr>events := [ShowWarning ''Size mismatch'' ''v2: expected 3 entries, got 1'']\<rparr>)"
proof -
  let ?fs = "example_fs [] [] []"
  let ?pg = "example_pg (example_shapes 1 3) []"
  let ?st = "example_popup ''+1''"
  have nm: "strip (var_port_name ?st) \<noteq> []" by (simp add: example_popup_sel strip_Port1)
  have ok: "\<forall>q\<in>set [''/work/v1'']. \<not> size_mismatch ?fs ?pg (signs_raw_of (var_signs ?st)) q"
    by (simp add: size_mismatch_def count_conductors_example example_popup_sel
          signs_raw_of_examples)
  have bad: "size_mismatch ?fs ?pg (signs_raw_of (var_signs ?st)) ''/work/v2''"
    by (simp add: size_mismatch_def count_conductors_example example_popup_sel
          signs_raw_of_examples)
  from apply_to_paths_reports_first_mismatch [OF nm ok bad, of "[]"]
  show ?thesis
    by (simp add: example_fs_sel count_conductors_example example_popup_sel
          signs_raw_of_examples str_nat_digits)
qed

text \<open>
  C3 as stated fails on a batch of two variants with 2 and 3 conductors and one sign
  token: both variants fail the check, and the only thing reported is the warning about
  the first.
\<close>

theorem apply_to_paths_report_counterexample:
  "filter (size_mismatch (example_fs [] [] []) (example_pg (example_shapes 2 3) [])
             (signs_raw_of ''+1'')) [''/work/v1'', ''/work/v2'']
     = [''/work/v1'', ''/work/v2'']
   \<and> apply_to_paths (example_fs [] [] []) (example_pg (example_shapes 2 3) [])
        (example_popup ''+1'') [''/work/v1'', ''/work/v2'']
     = (None, (example_popup ''+1'')
          \<lparr>events := [ShowWarning ''Size mismatch'' ''v1: expected 2 entries, got 1'']\<rparr>)"
  by (simp add: apply_to_paths_def size_mismatch_def count_conductors_example
        example_popup_sel signs_raw_of_examples strip_Port1 example_fs_sel str_nat_digits)

text \<open>
  C9, as the code has it.  The conversion of the tokens to floats is not part of the
  size check: with a token that does not convert, a batch in which some variant fails
  the size check still ends with the size warning and no exception.  When every variant
  passes the check and the batch is not empty, the conversion raises in the first round
  of the second loop, before \<open>setdefault\<close> and the store, so the exception leaves the
  method with the popup exactly as it was: no variant is changed.
\<close>

theorem apply_to_paths_float_error:
  assumes "strip (var_port_name st) \<noteq> []"
    and "floats (float pg) (signs_raw_of (var_signs st)) = Inl e"
  shows "((\<forall>p\<in>set paths. \<not> size_mismatch fs pg (signs_raw_of (var_signs st)) p)
            \<and> paths \<noteq> [] \<longrightarrow>
          apply_to_paths fs pg st paths = (Some e, st))
       \<and> ((\<exists>p\<in>set paths. size_mismatch fs pg (signs_raw_of (var_signs st)) p) \<longrightarrow>
          fst (apply_to_paths fs pg st paths) = None
          \<and> ports (snd (apply_to_paths fs pg st paths)) = ports st)"
proof (intro conjI impI)
  assume "(\<forall>p\<in>set paths. \<not> size_mismatch fs pg (signs_raw_of (var_signs st)) p) \<and> paths \<noteq> []"
  then have cs: "check_sizes fs pg (signs_raw_of (var_signs st)) paths = None"
    and ne: "paths \<noteq> []"
    by (simp_all add: check_sizes_None)
  show "apply_to_paths fs pg st paths = (Some e, st)"
    using assms cs ne by (simp add: apply_to_paths_def Let_def commit_loop_raises)
next
  assume "\<exists>p\<in>set paths. size_mismatch fs pg (signs_raw_of (var_signs st)) p"
  then have "check_sizes fs pg (signs_raw_of (var_signs st)) paths \<noteq> None"
    by (simp add: check_sizes_None)
  then obtain p where p: "check_sizes fs pg (signs_raw_of (var_signs st)) paths = Some p"
    by auto
  from apply_to_paths_mismatch [OF p]
  show "fst (apply_to_paths fs pg st paths) = None"
    and "ports (snd (apply_to_paths fs pg st paths)) = ports st" .
qed

theorem apply_to_paths_float_error_witness:
  "apply_to_paths (example_fs [] [] []) (example_pg (example_shapes 2 2) [])
      (example_popup ''+1 x'') [''/work/v1'', ''/work/v2'']
     = (Some (Exn ''ValueError'' ''x''), example_popup ''+1 x'')
   \<and> fst (apply_to_paths (example_fs [] [] []) (example_pg (example_shapes 2 3) [])
      (example_popup ''+1 x'') [''/work/v1'', ''/work/v2'']) = None"
proof -
  let ?fs = "example_fs [] [] []"
  let ?st = "example_popup ''+1 x''"
  let ?paths = "[''/work/v1'', ''/work/v2'']"
  have nm: "strip (var_port_name ?st) \<noteq> []" by (simp add: example_popup_sel strip_Port1)
  have fl: "floats (float (example_pg (example_shapes m n) [])) (signs_raw_of (var_signs ?st))
              = Inl (Exn ''ValueError'' ''x'')" for m n
    by (simp add: example_popup_sel signs_raw_of_examples example_pg_sel)
  have good: "(\<forall>p\<in>set ?paths. \<not> size_mismatch ?fs (example_pg (example_shapes 2 2) [])
                (signs_raw_of (var_signs ?st)) p) \<and> ?paths \<noteq> []"
    by (simp add: size_mismatch_def count_conductors_example example_popup_sel
          signs_raw_of_examples)
  have bad: "\<exists>p\<in>set ?paths. size_mismatch ?fs (example_pg (example_shapes 2 3) [])
                (signs_raw_of (var_signs ?st)) p"
    by (simp add: size_mismatch_def count_conductors_example example_popup_sel
          signs_raw_of_examples)
  from apply_to_paths_float_error [OF nm fl, of ?paths ?fs] good
  have 1: "apply_to_paths ?fs (example_pg (example_shapes 2 2) []) ?st ?paths
             = (Some (Exn ''ValueError'' ''x''), ?st)" by blast
  from apply_to_paths_float_error [OF nm fl, of ?paths ?fs] bad
  have 2: "fst (apply_to_paths ?fs (example_pg (example_shapes 2 3) []) ?st ?paths) = None"
    by blast
  from 1 2 show ?thesis by simp
qed

text \<open>
  C9 as stated says that some input makes the batch apply raise after some variants
  have been changed.  There is no such input: whenever the method raises, the port
  mappings are the ones it started with.
\<close>

theorem apply_to_paths_partial_counterexample:
  "\<not> (\<exists>(fs :: filesystem) (pg :: (int, string) collaborators) (st :: (int, string) popup) paths.
        fst (apply_to_paths fs pg st paths) \<noteq> None
        \<and> ports (snd (apply_to_paths fs pg st paths)) \<noteq> ports st)"
proof
  assume "\<exists>(fs :: filesystem) (pg :: (int, string) collaborators) (st :: (int, string) popup) paths.
        fst (apply_to_paths fs pg st paths) \<noteq> None
        \<and> ports (snd (apply_to_paths fs pg st paths)) \<noteq> ports st"
  then obtain fs and pg :: "(int, string) collaborators" and st :: "(int, string) popup" and paths
    where a: "fst (apply_to_paths fs pg st paths) \<noteq> None"
      and b: "ports (snd (apply_to_paths fs pg st paths)) \<noteq> ports st"
    by blast
  from a obtain e where "fst (apply_to_paths fs pg st paths) = Some e" by auto
  from apply_to_paths_raise_unchanged [OF this] b show False by simp
qed

section \<open>Saving the port configurations\<close>

lemma save_loop_stops:
  assumes "\<forall>entry\<in>set pre. saved_ok fs pg entry"
    and "ensure_analysis_dirs pg p = Inr cfg_path"
    and "write_text fs cfg_path (json_dumps pg pm) = Some e"
  shows "save_loop fs pg (pre @ (p, pm) # post) ev
           = (Some e, ev @ concat (map (save_events pg) (pre @ [(p, pm)])))"
  using assms
proof (induction pre arbitrary: ev)
  case Nil
  then show ?case by (simp add: save_events_def)
next
  case (Cons a pre)
  obtain q m where a: "a = (q, m)" by (cases a)
  from Cons.prems(1) a obtain c where c: "ensure_analysis_dirs pg q = Inr c"
    and w: "write_text fs c (json_dumps pg m) = None"
    by (auto simp: saved_ok_def split: sum.splits)
  from Cons.prems have "\<forall>entry\<in>set pre. saved_ok fs pg entry" by simp
  from Cons.IH [OF this Cons.prems(2,3)] a c w show ?case
    by (simp add: save_events_def)
qed

text \<open>
  C5, as the code has it.  The batch persist writes the variants in the order of the
  port dictionary, and a write failure for one variant leaves the method at once as its
  exception: the trace holds the attempts up to and including the failing write and
  nothing else, so no later variant is attempted, nothing is collected, no plot is
  dispatched and the popup stays open.
\<close>

theorem save_and_run_stops_at_write_failure:
  assumes "ports st = pre @ (p, pm) # post"
    and "\<forall>entry\<in>set pre. saved_ok fs pg entry"
    and "ensure_analysis_dirs pg p = Inr cfg_path"
    and "write_text fs cfg_path (json_dumps pg pm) = Some e"
  shows "save_and_run fs pg st
           = (Some e, st\<lparr>events := events st @ concat (map (save_events pg) (pre @ [(p, pm)]))\<rparr>)"
  using assms(1) save_loop_stops [OF assms(2,3,4), of post "events st"]
  by (simp add: save_and_run_def)

theorem save_and_run_stops_at_write_failure_witness:
  "save_and_run (example_fs [] [] [''/work/v2/ports_config.json'']) (example_pg [] [])
      example_plot_popup
     = (Some (Exn ''PermissionError'' ''/work/v2/ports_config.json''),
        example_plot_popup
          \<lparr>events := [EnsureAnalysisDirs ''/work/v1'',
                      WriteText ''/work/v1/ports_config.json'' ''Port1'',
                      EnsureAnalysisDirs ''/work/v2'',
                      WriteText ''/work/v2/ports_config.json'' ''Port1'']\<rparr>)"
proof -
  let ?fs = "example_fs [] [] [''/work/v2/ports_config.json'']"
  let ?pg = "example_pg [] [] :: (int, string) collaborators"
  let ?e1 = "(''/work/v1'', [(''Port1'', \<lparr>ptype = ''series'', signs = [1, - 1 :: int]\<rparr>)])"
  let ?pm2 = "[(''Port1'', \<lparr>ptype = ''series'', signs = [1, 1 :: int]\<rparr>)]"
  let ?e3 = "(''/work/v3'', [(''Port2'', \<lparr>ptype = ''parallel'', signs = [1 :: int]\<rparr>)])"
  have p: "ports example_plot_popup = [?e1] @ (''/work/v2'', ?pm2) # [?e3]"
    by (simp add: example_plot_popup_sel example_ports_def)
  have ok: "\<forall>entry\<in>set [?e1]. saved_ok ?fs ?pg entry"
    by (simp add: saved_ok_def example_fs_sel example_pg_sel)
  have d: "ensure_analysis_dirs ?pg ''/work/v2'' = Inr ''/work/v2/ports_config.json''"
    by (simp add: example_pg_sel)
  have w: "write_text ?fs ''/work/v2/ports_config.json'' (json_dumps ?pg ?pm2)
             = Some (Exn ''PermissionError'' ''/work/v2/ports_config.json'')"
    by (simp add: example_fs_sel)
  from save_and_run_stops_at_write_failure [OF p ok d w]
  show ?thesis
    by (simp add: save_events_def example_pg_sel example_plot_popup_sel)
qed

text \<open>
  C5 as stated fails on three variants when the configuration file of the first cannot
  be written: the exception of that write leaves the method, and the writes for the
  second and the third variant, which would succeed, are never attempted.
\<close>

theorem save_and_run_counterexample:
  "save_and_run (example_fs [] [] [''/work/v1/ports_config.json'']) (example_pg [] [])
      example_plot_popup
     = (Some (Exn ''PermissionError'' ''/work/v1/ports_config.json''),
        example_plot_popup
          \<lparr>events := [EnsureAnalysisDirs ''/work/v1'',
                      WriteText ''/work/v1/ports_config.json'' ''Port1'']\<rparr>)
   \<and> write_text (example_fs [] [] [''/work/v1/ports_config.json''])
        ''/work/v2/ports_config.json'' ''Port1'' = None
   \<and> write_text (example_fs [] [] [''/work/v1/ports_config.json''])
        ''/work/v3/ports_config.json'' ''Port2'' = None"
  by (simp add: save_and_run_def example_plot_popup_sel example_ports_def example_fs_sel
        example_pg_sel)

section \<open>Dispatching the plots\<close>

lemma plot_loop_append:
  "plot_loop pg prts (xs @ ys) records ev =
     (case plot_loop pg prts xs records ev of
        (Inl e, ev') \<Rightarrow> (Inl e, ev')
      | (Inr records', ev') \<Rightarrow> plot_loop pg prts ys records' ev')"
  by (induction xs arbitrary: records ev) (auto split: sum.splits)

lemma plot_loop_events:
  "fst (plot_loop pg prts xs records ev) = Inr records' \<Longrightarrow>
     snd (plot_loop pg prts xs records ev) = ev @ map ProcessSpiral xs"
  by (induction xs arbitrary: records ev) (auto split: sum.splits)

text \<open>
  C2, as the code has it.  The variants are dispatched to the plot generator in order.
  A failure raised by the plot generator for one variant is not caught: it leaves
  \<open>_run_plots\<close> as its exception, the variants after it are not dispatched and no
  summary is written.  When no variant fails, every variant is dispatched and the
  records the plot generator has gathered are the ones written to the summary (or
  reported as none).
\<close>

theorem run_plots_propagates_failure:
  "(\<forall>pre p post records e.
       spiral_paths st = pre @ p # post
       \<and> fst (plot_loop pg (ports st) pre [] (events st)) = Inr records
       \<and> process_spiral pg p records (get_or_empty (ports st) p) = Inl e \<longrightarrow>
       run_plots fs pg st = (Some e, st\<lparr>events := events st @ map ProcessSpiral (pre @ [p])\<rparr>))
   \<and> (\<forall>records.
       fst (plot_loop pg (ports st) (spiral_paths st) [] (events st)) = Inr records \<longrightarrow>
       events (snd (run_plots fs pg st))
         = events st @ map ProcessSpiral (spiral_paths st)
           @ (if records = [] then
                [LogInsert (''Plot generation finished (no records written).'' @ [CHR 0x0A])]
              else
                ToCsv (joinpath fs (parent fs (address_file st)) ''ports_summary.csv'') records
                # (case to_csv pg (joinpath fs (parent fs (address_file st)) ''ports_summary.csv'')
                          records of
                     Some e \<Rightarrow> []
                   | None \<Rightarrow>
                       [LogInsert (''Plot generation complete. Summary -> ''
                          @ joinpath fs (parent fs (address_file st)) ''ports_summary.csv''
                          @ [CHR 0x0A])])))"
proof (intro conjI allI impI)
  fix pre p post records e
  assume a: "spiral_paths st = pre @ p # post
       \<and> fst (plot_loop pg (ports st) pre [] (events st)) = Inr records
       \<and> process_spiral pg p records (get_or_empty (ports st) p) = Inl e"
  then have f: "fst (plot_loop pg (ports st) pre [] (events st)) = Inr records" by simp
  from plot_loop_events [OF f]
  have "plot_loop pg (ports st) pre [] (events st) = (Inr records, events st @ map ProcessSpiral pre)"
    using f by (cases "plot_loop pg (ports st) pre [] (events st)") simp
  with a have "plot_loop pg (ports st) (spiral_paths st) [] (events st)
                 = (Inl e, events st @ map ProcessSpiral (pre @ [p]))"
    by (simp add: plot_loop_append)
  then show "run_plots fs pg st = (Some e, st\<lparr>events := events st @ map ProcessSpiral (pre @ [p])\<rparr>)"
    by (simp add: run_plots_def)
next
  fix records
  assume f: "fst (plot_loop pg (ports st) (spiral_paths st) [] (events st)) = Inr records"
  from plot_loop_events [OF f]
  have "plot_loop pg (ports st) (spiral_paths st) [] (events st)
          = (Inr records, events st @ map ProcessSpiral (spiral_paths st))"
    using f by (cases "plot_loop pg (ports st) (spiral_paths st) [] (events st)") simp
  then show "events (snd (run_plots fs pg st))
         = events st @ map ProcessSpiral (spiral_paths st)
           @ (if records = [] then
                [LogInsert (''Plot generation finished (no records written).'' @ [CHR 0x0A])]
              else
                ToCsv (joinpath fs (parent fs (address_file st)) ''ports_summary.csv'') records
                # (case to_csv pg (joinpath fs (parent fs (address_file st)) ''ports_summary.csv'')
                          records of
                     Some e \<Rightarrow> []
                   | None \<Rightarrow>
                       [LogInsert (''Plot generation complete. Summary -> ''
                          @ joinpath fs (parent fs (address_file st)) ''ports_summary.csv''
                          @ [CHR 0x0A])]))"
    by (simp add: run_plots_def Let_def split: option.splits)
qed

theorem run_plots_propagates_failure_witness:
  "run_plots (example_fs [] [] []) (example_pg [] [''/work/v3'']) example_plot_popup
     = (Some (Exn ''PlotError'' ''/work/v3''),
        example_plot_popup\<lparr>events := [ProcessSpiral ''/work/v1'', ProcessSpiral ''/work/v2'',
                                       ProcessSpiral ''/work/v3'']\<rparr>)
   \<and> events (snd (run_plots (example_fs [] [] []) (example_pg [] []) example_plot_popup))
     = [ProcessSpiral ''/work/v1'', ProcessSpiral ''/work/v2'', ProcessSpiral ''/work/v3'',
        ToCsv ''/work/ports_summary.csv'' [''/work/v1'', ''/work/v2'', ''/work/v3''],
        LogInsert (''Plot generation complete. Summary -> /work/ports_summary.csv'' @ [CHR 0x0A])]"
proof -
  let ?fs = "example_fs [] [] []"
  let ?st = example_plot_popup
  let ?bad = "example_pg [] [''/work/v3''] :: (int, string) collaborators"
  let ?good = "example_pg [] [] :: (int, string) collaborators"
  have a: "spiral_paths ?st = [''/work/v1'', ''/work/v2''] @ ''/work/v3'' # []
           \<and> fst (plot_loop ?bad (ports ?st) [''/work/v1'', ''/work/v2''] [] (events ?st))
               = Inr [''/work/v1'', ''/work/v2'']
           \<and> process_spiral ?bad ''/work/v3'' [''/work/v1'', ''/work/v2'']
                 (get_or_empty (ports ?st) ''/work/v3'') = Inl (Exn ''PlotError'' ''/work/v3'')"
    by (simp add: example_plot_popup_sel example_pg_sel)
  note fail = run_plots_propagates_failure [of ?st ?bad ?fs, THEN conjunct1, THEN spec, THEN spec,
      THEN spec, THEN spec, THEN spec, THEN mp, OF a]
  have b: "fst (plot_loop ?good (ports ?st) (spiral_paths ?st) [] (events ?st))
             = Inr [''/work/v1'', ''/work/v2'', ''/work/v3'']"
    by (simp add: example_plot_popup_sel example_pg_sel)
  note succeed = run_plots_propagates_failure [of ?st ?good ?fs, THEN conjunct2, THEN spec,
      THEN mp, OF b]
  from fail have 1: "run_plots ?fs ?bad ?st
     = (Some (Exn ''PlotError'' ''/work/v3''),
        ?st\<lparr>events := [ProcessSpiral ''/work/v1'', ProcessSpiral ''/work/v2'',
                       ProcessSpiral ''/work/v3'']\<rparr>)"
    by (simp add: example_plot_popup_sel)
  from succeed have 2: "events (snd (run_plots ?fs ?good ?st))
     = [ProcessSpiral ''/work/v1'', ProcessSpiral ''/work/v2'', ProcessSpiral ''/work/v3'',
        ToCsv ''/work/ports_summary.csv'' [''/work/v1'', ''/work/v2'', ''/work/v3''],
        LogInsert (''Plot generation complete. Summary -> /work/ports_summary.csv'' @ [CHR 0x0A])]"
    by (simp add: example_plot_popup_sel example_pg_sel example_fs_sel)
  from 1 2 show ?thesis by simp
qed

text \<open>
  C2 as stated fails on the variants v1, v2, v3 when the plot generator raises for v2:
  the exception reaches the caller, and v3, for which the plot generator would return,
  is never dispatched.
\<close>

theorem run_plots_counterexample:
  "run_plots (example_fs [] [] []) (example_pg [] [''/work/v2'']) example_plot_popup
     = (Some (Exn ''PlotError'' ''/work/v2''),
        example_plot_popup\<lparr>events := [ProcessSpiral ''/work/v1'', ProcessSpiral ''/work/v2'']\<rparr>)
   \<and> process_spiral (example_pg [] [''/work/v2'']) ''/work/v3'' [''/work/v1'']
        (get_or_empty (ports example_plot_popup) ''/work/v3'') = Inr [''/work/v1'', ''/work/v3'']"
  by (simp add: run_plots_def example_plot_popup_sel example_pg_sel)

section \<open>The pipeline\<close>


















end
